theory Spec2Isabelle
  imports Complex_Main "HOL-Library.AList"
begin

section \<open>Python values\<close>

text \<open>
  The item manager exists twice in the repository: \<^verbatim>\<open>src/main.py\<close> (the strict variant,
  whose schema constrains name and price) and \<^verbatim>\<open>src/backend/main.py\<close> (the lenient variant,
  which checks the price in the handler). Both modules use the same names, so the constants
  of the first are prefixed \<open>main_\<close> and those of the second \<open>backend_\<close>.

  A Python \<^verbatim>\<open>float\<close> is only ever compared with zero and stored. It is a finite number,
  an infinity or NaN; the comparison \<^verbatim>\<open><\<close> is false whenever NaN takes part.
\<close>

datatype pyfloat = Finite real | PosInf | NegInf | NaN

fun float_lt :: "pyfloat \<Rightarrow> pyfloat \<Rightarrow> bool" where
  "float_lt (Finite a) (Finite b) = (a < b)"
| "float_lt (Finite a) PosInf = True"
| "float_lt NegInf (Finite b) = True"
| "float_lt NegInf PosInf = True"
| "float_lt _ _ = False"

definition float_gt :: "pyfloat \<Rightarrow> pyfloat \<Rightarrow> bool" where
  "float_gt a b = float_lt b a"

text \<open>The values that occur in the dictionaries of the two modules (\<^verbatim>\<open>Dict[str, Any]\<close>).\<close>

datatype pyval = PyNone | PyStr string | PyFloat pyfloat | PyInt int | PyBool bool

definition py_opt :: "('a \<Rightarrow> pyval) \<Rightarrow> 'a option \<Rightarrow> pyval" where
  "py_opt conv v = (case v of None \<Rightarrow> PyNone | Some x \<Rightarrow> conv x)"

text \<open>
  A Python \<^verbatim>\<open>dict\<close> keeps its keys in insertion order: assigning to a key that is present
  replaces the value where it stands, assigning to a new key appends it, and \<^verbatim>\<open>del\<close>
  removes the entry. An association list models it.
\<close>

type_synonym ('k, 'v) dict = "('k \<times> 'v) list"

type_synonym pydict = "(string, pyval) dict"

definition dict_contains :: "('k, 'v) dict \<Rightarrow> 'k \<Rightarrow> bool" where
  "dict_contains d k = (k \<in> set (map fst d))"

definition dict_get :: "('k, 'v) dict \<Rightarrow> 'k \<Rightarrow> 'v option" where
  "dict_get d k = map_of d k"

definition dict_setitem :: "('k, 'v) dict \<Rightarrow> 'k \<Rightarrow> 'v \<Rightarrow> ('k, 'v) dict" where
  "dict_setitem d k v = AList.update k v d"

definition dict_delitem :: "('k, 'v) dict \<Rightarrow> 'k \<Rightarrow> ('k, 'v) dict" where
  "dict_delitem d k = AList.delete k d"

definition dict_keys :: "('k, 'v) dict \<Rightarrow> 'k list" where
  "dict_keys d = map fst d"

definition dict_values :: "('k, 'v) dict \<Rightarrow> 'v list" where
  "dict_values d = map snd d"

text \<open>\<^verbatim>\<open>str(n)\<close> for an integer, as the f-strings of \<^verbatim>\<open>src/main.py\<close> format the item id.\<close>

definition digit_char :: "nat \<Rightarrow> char" where
  "digit_char d = ''0123456789'' ! d"

fun str_nat :: "nat \<Rightarrow> string" where
  "str_nat n = (if n < 10 then [digit_char n] else str_nat (n div 10) @ [digit_char (n mod 10)])"

declare str_nat.simps [simp del]

definition str_int :: "int \<Rightarrow> string" where
  "str_int i = (if i < 0 then CHR ''-'' # str_nat (nat (- i)) else str_nat (nat i))"

section \<open>HTTP errors\<close>

text \<open>
  A handler either returns a value or raises \<^verbatim>\<open>HTTPException(status_code, detail)\<close>. A
  request body that violates a \<^verbatim>\<open>Field\<close> constraint of the schema never reaches the handler:
  the framework answers it with a request validation error, status 422. A value that a
  handler returns and that violates the route's \<^verbatim>\<open>response_model\<close> is a response validation
  error. That error, a \<^verbatim>\<open>ValueError\<close> from rendering JSON, and the \<^verbatim>\<open>KeyError\<close> of
  subscripting a dictionary with a key it does not hold are caught by nothing and end as
  status 500.
\<close>

datatype error =
  HTTPException nat string | RequestValidationError | ResponseValidationError | ValueError | KeyError

abbreviation HTTP_400_BAD_REQUEST :: nat where "HTTP_400_BAD_REQUEST \<equiv> 400"
abbreviation HTTP_404_NOT_FOUND :: nat where "HTTP_404_NOT_FOUND \<equiv> 404"
abbreviation HTTP_422_UNPROCESSABLE_ENTITY :: nat where "HTTP_422_UNPROCESSABLE_ENTITY \<equiv> 422"
abbreviation HTTP_500_INTERNAL_SERVER_ERROR :: nat where "HTTP_500_INTERNAL_SERVER_ERROR \<equiv> 500"

fun status_code :: "error \<Rightarrow> nat" where
  "status_code (HTTPException code detail) = code"
| "status_code RequestValidationError = HTTP_422_UNPROCESSABLE_ENTITY"
| "status_code ResponseValidationError = HTTP_500_INTERNAL_SERVER_ERROR"
| "status_code ValueError = HTTP_500_INTERNAL_SERVER_ERROR"
| "status_code KeyError = HTTP_500_INTERNAL_SERVER_ERROR"

text \<open>
  The body of a 422 answer lists every rejected field with the input it had, and is
  rendered as JSON with \<^verbatim>\<open>allow_nan=False\<close>: when a rejected input is NaN or an infinity
  the rendering raises \<^verbatim>\<open>ValueError\<close> instead.
\<close>

definition json_compliant :: "pyval \<Rightarrow> bool" where
  "json_compliant v = (case v of PyFloat (Finite x) \<Rightarrow> True | PyFloat _ \<Rightarrow> False | _ \<Rightarrow> True)"

definition request_validation_error :: "pyval list \<Rightarrow> error" where
  "request_validation_error inputs =
     (if list_all json_compliant inputs then RequestValidationError else ValueError)"

section \<open>The store\<close>

text \<open>
  Both modules keep two globals: \<^verbatim>\<open>db\<close>, a dictionary from item id to the stored item, and
  the counter \<^verbatim>\<open>next_id\<close>, an unbounded Python integer. Both start as \<^verbatim>\<open>{}\<close> and \<^verbatim>\<open>1\<close>.
  A handler takes the store and returns its result with the store it leaves behind; a
  raised exception leaves the store as it was at the \<^verbatim>\<open>raise\<close>.

  In \<^verbatim>\<open>src/main.py\<close> a stored item is a \<^verbatim>\<open>Dict[str, Any]\<close>. In \<^verbatim>\<open>src/backend/main.py\<close> it is
  an \<^verbatim>\<open>ItemResponse\<close> object, modelled by the dictionary of its fields in declaration
  order: \<^verbatim>\<open>copy(update=...)\<close> writes into that dictionary without validating, so a field
  declared \<^verbatim>\<open>str\<close> or \<^verbatim>\<open>float\<close> can come to hold \<^verbatim>\<open>None\<close>.
\<close>

record store =
  db :: "(int, pydict) dict"
  next_id :: int

definition initial_store :: store where
  "initial_store = \<lparr>db = [], next_id = 1\<rparr>"

text \<open>
  A field of an update schema is either absent from the request body or provided, possibly
  as an explicit \<^verbatim>\<open>null\<close>; pydantic records which fields were set, and
  \<^verbatim>\<open>model_dump(exclude_unset=True)\<close> lists exactly those, in declaration order.
\<close>

datatype 'a field = Unset | Provided "'a option"

fun dump_field :: "string \<Rightarrow> ('a \<Rightarrow> pyval) \<Rightarrow> 'a field \<Rightarrow> pydict" where
  "dump_field key conv Unset = []"
| "dump_field key conv (Provided v) = [(key, py_opt conv v)]"

section \<open>The strict variant, \<^verbatim>\<open>src/main.py\<close>\<close>

record main_ItemCreate =
  name :: string
  description :: "string option"
  price :: pyfloat

record main_ItemUpdate =
  name :: "string field"
  description :: "string field"
  price :: "pyfloat field"

text \<open>The \<^verbatim>\<open>Field\<close> constraints: \<^verbatim>\<open>min_length=1\<close> on the name, \<^verbatim>\<open>gt=0\<close> on the price.\<close>

definition main_ItemCreate_valid :: "main_ItemCreate \<Rightarrow> bool" where
  "main_ItemCreate_valid item =
     (1 \<le> length (main_ItemCreate.name item) \<and> float_gt (main_ItemCreate.price item) (Finite 0))"

definition main_ItemUpdate_valid :: "main_ItemUpdate \<Rightarrow> bool" where
  "main_ItemUpdate_valid item_update =
     (case main_ItemUpdate.price item_update of
        Provided (Some p) \<Rightarrow> float_gt p (Finite 0)
      | _ \<Rightarrow> True)"

definition main_ItemCreate_model_dump :: "main_ItemCreate \<Rightarrow> pydict" where
  "main_ItemCreate_model_dump item =
     [(''name'', PyStr (main_ItemCreate.name item)),
      (''description'', py_opt PyStr (main_ItemCreate.description item)),
      (''price'', PyFloat (main_ItemCreate.price item))]"

definition main_ItemUpdate_model_dump_exclude_unset :: "main_ItemUpdate \<Rightarrow> pydict" where
  "main_ItemUpdate_model_dump_exclude_unset item_update =
     dump_field ''name'' PyStr (main_ItemUpdate.name item_update)
     @ dump_field ''description'' PyStr (main_ItemUpdate.description item_update)
     @ dump_field ''price'' PyFloat (main_ItemUpdate.price item_update)"

definition main_not_found :: "int \<Rightarrow> error" where
  "main_not_found item_id =
     HTTPException HTTP_404_NOT_FOUND (''Item with ID '' @ str_int item_id @ '' not found'')"

definition main_create_item :: "main_ItemCreate \<Rightarrow> store \<Rightarrow> (error + pydict) \<times> store" where
  "main_create_item item st =
     (let new_item_data = main_ItemCreate_model_dump item;
          new_item_data = dict_setitem new_item_data ''id'' (PyInt (next_id st));
          new_item_data = dict_setitem new_item_data ''is_active'' (PyBool True);
          st = st\<lparr>db := dict_setitem (db st) (next_id st) new_item_data\<rparr>;
          st = st\<lparr>next_id := next_id st + 1\<rparr>
      in (Inr new_item_data, st))"

definition main_read_all_items :: "store \<Rightarrow> (error + pydict list) \<times> store" where
  "main_read_all_items st = (Inr (dict_values (db st)), st)"

definition main_read_item :: "int \<Rightarrow> store \<Rightarrow> (error + pydict) \<times> store" where
  "main_read_item item_id st =
     (if \<not> dict_contains (db st) item_id then (Inl (main_not_found item_id), st)
      else case dict_get (db st) item_id of
        None \<Rightarrow> (Inl KeyError, st)
      | Some item \<Rightarrow> (Inr item, st))"

text \<open>
  The loop of \<^verbatim>\<open>update_item\<close>: every provided key whose value is not \<^verbatim>\<open>None\<close> is
  written into the stored item.
\<close>

fun main_apply_updates :: "pydict \<Rightarrow> pydict \<Rightarrow> pydict" where
  "main_apply_updates [] existing_item = existing_item"
| "main_apply_updates ((key, val) # update_data) existing_item =
     main_apply_updates update_data
       (if val \<noteq> PyNone then dict_setitem existing_item key val else existing_item)"

definition main_update_item :: "int \<Rightarrow> main_ItemUpdate \<Rightarrow> store \<Rightarrow> (error + pydict) \<times> store" where
  "main_update_item item_id item_update st =
     (if \<not> dict_contains (db st) item_id then (Inl (main_not_found item_id), st)
      else case dict_get (db st) item_id of
        None \<Rightarrow> (Inl KeyError, st)
      | Some existing_item \<Rightarrow>
          (let update_data = main_ItemUpdate_model_dump_exclude_unset item_update;
               existing_item = main_apply_updates update_data existing_item;
               st = st\<lparr>db := dict_setitem (db st) item_id existing_item\<rparr>
           in (Inr existing_item, st)))"

definition main_delete_item :: "int \<Rightarrow> store \<Rightarrow> (error + (string, string) dict) \<times> store" where
  "main_delete_item item_id st =
     (if \<not> dict_contains (db st) item_id then (Inl (main_not_found item_id), st)
      else (Inr [(''message'', ''Item deleted'')], st\<lparr>db := dict_delitem (db st) item_id\<rparr>))"

text \<open>
  The routes around the handlers. A body is validated against its schema before the handler
  is called; the inputs of the rejected fields go into the 422 answer. What the handler
  returns is validated against the \<^verbatim>\<open>response_model\<close> of the route, \<^verbatim>\<open>ItemInDB\<close> or a list
  of it: a name of at least one character, an optional description, a price above zero, an
  integer id and a boolean flag. The handler has run by then, so the store keeps what the
  handler did to it. The handlers only ever put strings, floats, integers and booleans
  under the keys that expect them, so no other kind of value is looked at. The delete route
  declares no response model.
\<close>

definition main_ItemCreate_rejected :: "main_ItemCreate \<Rightarrow> pyval list" where
  "main_ItemCreate_rejected item =
     (if 1 \<le> length (main_ItemCreate.name item) then [] else [PyStr (main_ItemCreate.name item)])
     @ (if float_gt (main_ItemCreate.price item) (Finite 0) then []
        else [PyFloat (main_ItemCreate.price item)])"

definition main_ItemUpdate_rejected :: "main_ItemUpdate \<Rightarrow> pyval list" where
  "main_ItemUpdate_rejected item_update =
     (case main_ItemUpdate.price item_update of
        Provided (Some p) \<Rightarrow> if float_gt p (Finite 0) then [] else [PyFloat p]
      | _ \<Rightarrow> [])"

definition main_ItemInDB_valid :: "pydict \<Rightarrow> bool" where
  "main_ItemInDB_valid item =
     ((case dict_get item ''name'' of Some (PyStr s) \<Rightarrow> 1 \<le> length s | _ \<Rightarrow> False)
      \<and> (case dict_get item ''description'' of
           None \<Rightarrow> True | Some PyNone \<Rightarrow> True | Some (PyStr s) \<Rightarrow> True | _ \<Rightarrow> False)
      \<and> (case dict_get item ''price'' of Some (PyFloat p) \<Rightarrow> float_gt p (Finite 0) | _ \<Rightarrow> False)
      \<and> (case dict_get item ''id'' of Some (PyInt i) \<Rightarrow> True | _ \<Rightarrow> False)
      \<and> (case dict_get item ''is_active'' of
           None \<Rightarrow> True | Some (PyBool b) \<Rightarrow> True | _ \<Rightarrow> False))"

definition main_response :: "(error + pydict) \<times> store \<Rightarrow> (error + pydict) \<times> store" where
  "main_response r =
     (case fst r of
        Inl e \<Rightarrow> r
      | Inr item \<Rightarrow> if main_ItemInDB_valid item then r else (Inl ResponseValidationError, snd r))"

definition main_list_response ::
  "(error + pydict list) \<times> store \<Rightarrow> (error + pydict list) \<times> store" where
  "main_list_response r =
     (case fst r of
        Inl e \<Rightarrow> r
      | Inr items \<Rightarrow>
          if list_all main_ItemInDB_valid items then r else (Inl ResponseValidationError, snd r))"

definition main_POST_items :: "main_ItemCreate \<Rightarrow> store \<Rightarrow> (error + pydict) \<times> store" where
  "main_POST_items body st =
     (if main_ItemCreate_valid body then main_response (main_create_item body st)
      else (Inl (request_validation_error (main_ItemCreate_rejected body)), st))"

definition main_GET_items :: "store \<Rightarrow> (error + pydict list) \<times> store" where
  "main_GET_items st = main_list_response (main_read_all_items st)"

definition main_GET_item :: "int \<Rightarrow> store \<Rightarrow> (error + pydict) \<times> store" where
  "main_GET_item item_id st = main_response (main_read_item item_id st)"

definition main_PUT_item :: "int \<Rightarrow> main_ItemUpdate \<Rightarrow> store \<Rightarrow> (error + pydict) \<times> store" where
  "main_PUT_item item_id body st =
     (if main_ItemUpdate_valid body then main_response (main_update_item item_id body st)
      else (Inl (request_validation_error (main_ItemUpdate_rejected body)), st))"

definition main_DELETE_item :: "int \<Rightarrow> store \<Rightarrow> (error + (string, string) dict) \<times> store" where
  "main_DELETE_item item_id st = main_delete_item item_id st"

section \<open>The lenient variant, \<^verbatim>\<open>src/backend/main.py\<close>\<close>

record backend_ItemCreate =
  name :: string
  description :: "string option"
  price :: pyfloat
  is_offer :: "bool option"

record backend_ItemUpdate =
  name :: "string field"
  description :: "string field"
  price :: "pyfloat field"
  is_offer :: "bool field"

definition backend_ItemCreate_model_dump :: "backend_ItemCreate \<Rightarrow> pydict" where
  "backend_ItemCreate_model_dump item =
     [(''name'', PyStr (backend_ItemCreate.name item)),
      (''description'', py_opt PyStr (backend_ItemCreate.description item)),
      (''price'', PyFloat (backend_ItemCreate.price item)),
      (''is_offer'', py_opt PyBool (backend_ItemCreate.is_offer item))]"

definition backend_ItemUpdate_model_dump_exclude_unset :: "backend_ItemUpdate \<Rightarrow> pydict" where
  "backend_ItemUpdate_model_dump_exclude_unset item_update =
     dump_field ''name'' PyStr (backend_ItemUpdate.name item_update)
     @ dump_field ''description'' PyStr (backend_ItemUpdate.description item_update)
     @ dump_field ''price'' PyFloat (backend_ItemUpdate.price item_update)
     @ dump_field ''is_offer'' PyBool (backend_ItemUpdate.is_offer item_update)"

text \<open>
  \<^verbatim>\<open>ItemResponse(id=new_id, **item_dict)\<close>: the fields of the response object, the id
  first, then those of the dumped \<^verbatim>\<open>ItemCreate\<close>, which has the remaining four in order.
\<close>

definition backend_ItemResponse :: "int \<Rightarrow> pydict \<Rightarrow> pydict" where
  "backend_ItemResponse new_id item_dict = (''id'', PyInt new_id) # item_dict"

text \<open>\<^verbatim>\<open>existing_item.copy(update=update_data)\<close>: every provided key is written, unvalidated.\<close>

fun backend_copy_update :: "pydict \<Rightarrow> pydict \<Rightarrow> pydict" where
  "backend_copy_update existing_item [] = existing_item"
| "backend_copy_update existing_item ((key, val) # update_data) =
     backend_copy_update (dict_setitem existing_item key val) update_data"

definition backend_price_error :: error where
  "backend_price_error = HTTPException HTTP_400_BAD_REQUEST ''Price cannot be negative.''"

definition backend_not_found :: error where
  "backend_not_found = HTTPException HTTP_404_NOT_FOUND ''Item not found''"

definition backend_validate_item_data :: "backend_ItemCreate + backend_ItemUpdate \<Rightarrow> error + unit" where
  "backend_validate_item_data item_data =
     (case item_data of
        Inl item \<Rightarrow>
          if float_lt (backend_ItemCreate.price item) (Finite 0) then Inl backend_price_error
          else Inr ()
      | Inr item_update \<Rightarrow> Inr ())"

definition backend_create_item :: "backend_ItemCreate \<Rightarrow> store \<Rightarrow> (error + pydict) \<times> store" where
  "backend_create_item item st =
     (case backend_validate_item_data (Inl item) of
        Inl e \<Rightarrow> (Inl e, st)
      | Inr _ \<Rightarrow>
          (let new_id = next_id st;
               st = st\<lparr>next_id := next_id st + 1\<rparr>;
               item_dict = backend_ItemCreate_model_dump item;
               response_item = backend_ItemResponse new_id item_dict;
               st = st\<lparr>db := dict_setitem (db st) new_id response_item\<rparr>
           in (Inr response_item, st)))"

definition backend_read_items :: "store \<Rightarrow> (error + pydict list) \<times> store" where
  "backend_read_items st = (Inr (dict_values (db st)), st)"

definition backend_read_item :: "int \<Rightarrow> store \<Rightarrow> (error + pydict) \<times> store" where
  "backend_read_item item_id st =
     (if \<not> dict_contains (db st) item_id then (Inl backend_not_found, st)
      else case dict_get (db st) item_id of
        None \<Rightarrow> (Inl KeyError, st)
      | Some item \<Rightarrow> (Inr item, st))"

text \<open>
  The price check of \<^verbatim>\<open>update_item\<close>: \<^verbatim>\<open>'price' in update_data\<close>, its value is not
  \<^verbatim>\<open>None\<close>, and it is below zero. The schema types the price as a float, so no other
  kind of value stands under that key.
\<close>

definition backend_price_negative :: "pydict \<Rightarrow> bool" where
  "backend_price_negative update_data =
     (dict_contains update_data ''price'' \<and>
      (case dict_get update_data ''price'' of
         Some (PyFloat new_price) \<Rightarrow> float_lt new_price (Finite 0)
       | _ \<Rightarrow> False))"

definition backend_update_item :: "int \<Rightarrow> backend_ItemUpdate \<Rightarrow> store \<Rightarrow> (error + pydict) \<times> store" where
  "backend_update_item item_id item_update st =
     (if \<not> dict_contains (db st) item_id then (Inl backend_not_found, st)
      else case dict_get (db st) item_id of
        None \<Rightarrow> (Inl KeyError, st)
      | Some existing_item \<Rightarrow>
          (let update_data = backend_ItemUpdate_model_dump_exclude_unset item_update
           in if backend_price_negative update_data then (Inl backend_price_error, st)
              else
                (let updated_item = backend_copy_update existing_item update_data;
                     st = st\<lparr>db := dict_setitem (db st) item_id updated_item\<rparr>
                 in (Inr updated_item, st))))"

definition backend_delete_item :: "int \<Rightarrow> store \<Rightarrow> (error + unit) \<times> store" where
  "backend_delete_item item_id st =
     (if \<not> dict_contains (db st) item_id then (Inl backend_not_found, st)
      else (Inr (), st\<lparr>db := dict_delitem (db st) item_id\<rparr>))"

section \<open>Sequences of requests\<close>

text \<open>
  The five operations as requests, and what a route answers. The routes of the lenient
  variant add nothing to their handlers: the schemas carry no constraint, and the handlers
  return \<^verbatim>\<open>ItemResponse\<close> objects, which the response model takes as they are. A service is
  run on a list of requests from a store. \<open>create_reply_ids\<close> has one entry for every
  successful creation of the run, in order: the id that its reply carries, or \<open>None\<close> when
  the reply carries none. \<open>created_ids\<close> collects the identifiers alone.
\<close>

datatype ('c, 'u) request = Create 'c | ListAll | Get int | Update int 'u | Delete int

datatype reply = Item pydict | ItemList "pydict list" | Message "(string, string) dict" | NoContent

definition respond :: "('a \<Rightarrow> reply) \<Rightarrow> (error + 'a) \<times> store \<Rightarrow> (error + reply) \<times> store" where
  "respond f r = (map_sum (\<lambda>e. e) f (fst r), snd r)"

fun main_handle :: "(main_ItemCreate, main_ItemUpdate) request \<Rightarrow> store \<Rightarrow> (error + reply) \<times> store" where
  "main_handle (Create body) st = respond Item (main_POST_items body st)"
| "main_handle ListAll st = respond ItemList (main_GET_items st)"
| "main_handle (Get item_id) st = respond Item (main_GET_item item_id st)"
| "main_handle (Update item_id body) st = respond Item (main_PUT_item item_id body st)"
| "main_handle (Delete item_id) st = respond Message (main_DELETE_item item_id st)"

fun backend_handle :: "(backend_ItemCreate, backend_ItemUpdate) request \<Rightarrow> store \<Rightarrow> (error + reply) \<times> store" where
  "backend_handle (Create body) st = respond Item (backend_create_item body st)"
| "backend_handle ListAll st = respond ItemList (backend_read_items st)"
| "backend_handle (Get item_id) st = respond Item (backend_read_item item_id st)"
| "backend_handle (Update item_id body) st = respond Item (backend_update_item item_id body st)"
| "backend_handle (Delete item_id) st = respond (\<lambda>_. NoContent) (backend_delete_item item_id st)"

fun run :: "('r \<Rightarrow> store \<Rightarrow> 'o \<times> store) \<Rightarrow> 'r list \<Rightarrow> store \<Rightarrow> store" where
  "run h [] st = st"
| "run h (r # rs) st = run h rs (snd (h r st))"

definition item_id_of :: "pydict \<Rightarrow> int option" where
  "item_id_of item = (case dict_get item ''id'' of Some (PyInt i) \<Rightarrow> Some i | _ \<Rightarrow> None)"






section \<open>Invariants and example requests\<close>

text \<open>
  What every store reached from the initial one satisfies: the keys of \<^verbatim>\<open>db\<close> stand in
  strictly increasing order, all below the counter, and each stored item carries its key
  as its \<^verbatim>\<open>id\<close>. In the strict variant every stored item is active as well.
\<close>

definition store_inv :: "store \<Rightarrow> bool" where
  "store_inv st =
     (sorted_wrt (<) (dict_keys (db st)) \<and>
      (\<forall>k \<in> set (dict_keys (db st)). k < next_id st) \<and>
      (\<forall>(k, item) \<in> set (db st). item_id_of item = Some k))"

definition all_active :: "store \<Rightarrow> bool" where
  "all_active st = (\<forall>(k, item) \<in> set (db st). dict_get item ''is_active'' = Some (PyBool True))"

text \<open>The requests of the example session of the specification.\<close>

definition main_widget :: main_ItemCreate where
  "main_widget = \<lparr>main_ItemCreate.name = ''Widget'', description = None, price = Finite 9.99\<rparr>"


definition backend_widget :: backend_ItemCreate where
  "backend_widget =
     \<lparr>backend_ItemCreate.name = ''Widget'', description = None, price = Finite 9.99, is_offer = None\<rparr>"


definition main_describe :: main_ItemUpdate where
  "main_describe =
     \<lparr>main_ItemUpdate.name = Unset, description = Provided (Some ''blue''), price = Provided None\<rparr>"

definition main_reprice :: main_ItemUpdate where
  "main_reprice =
     \<lparr>main_ItemUpdate.name = Unset, description = Unset, price = Provided (Some (Finite 2))\<rparr>"

definition main_negative_price :: main_ItemUpdate where
  "main_negative_price =
     \<lparr>main_ItemUpdate.name = Unset, description = Unset, price = Provided (Some (Finite (- 1)))\<rparr>"

definition backend_describe :: backend_ItemUpdate where
  "backend_describe =
     \<lparr>backend_ItemUpdate.name = Unset, description = Provided (Some ''blue''), price = Unset,
      is_offer = Unset\<rparr>"

definition backend_null_price :: backend_ItemUpdate where
  "backend_null_price =
     \<lparr>backend_ItemUpdate.name = Unset, description = Unset, price = Provided None, is_offer = Unset\<rparr>"

definition backend_negative_price :: backend_ItemUpdate where
  "backend_negative_price =
     \<lparr>backend_ItemUpdate.name = Unset, description = Unset, price = Provided (Some (Finite (- 1))),
      is_offer = Unset\<rparr>"


definition main_widget_item :: pydict where
  "main_widget_item =
     [(''name'', PyStr ''Widget''), (''description'', PyNone), (''price'', PyFloat (Finite 9.99)),
      (''id'', PyInt 1), (''is_active'', PyBool True)]"

definition backend_widget_item :: pydict where
  "backend_widget_item =
     [(''id'', PyInt 1), (''name'', PyStr ''Widget''), (''description'', PyNone),
      (''price'', PyFloat (Finite 9.99)), (''is_offer'', PyNone)]"

definition main_unname :: main_ItemUpdate where
  "main_unname =
     \<lparr>main_ItemUpdate.name = Provided (Some []), description = Unset, price = Unset\<rparr>"

definition main_unnamed_item :: pydict where
  "main_unnamed_item =
     [(''name'', PyStr []), (''description'', PyNone), (''price'', PyFloat (Finite 9.99)),
      (''id'', PyInt 1), (''is_active'', PyBool True)]"

section \<open>Lemmas\<close>

subsection \<open>Dictionaries\<close>

lemma dict_contains_iff: "dict_contains d k \<longleftrightarrow> dict_get d k \<noteq> None"
  by (simp add: dict_contains_def dict_get_def map_of_eq_None_iff)

lemma dict_get_setitem:
  "dict_get (dict_setitem d k v) k' = (if k' = k then Some v else dict_get d k')"
  by (simp add: dict_get_def dict_setitem_def update_conv')

lemma dict_get_delitem:
  "dict_get (dict_delitem d k) k' = (if k' = k then None else dict_get d k')"
  by (simp add: dict_get_def dict_delitem_def delete_conv')

lemma dict_keys_setitem:
  "dict_keys (dict_setitem d k v) = (if dict_contains d k then dict_keys d else dict_keys d @ [k])"
  by (simp add: dict_keys_def dict_setitem_def dict_contains_def update_keys)

lemma dict_keys_delitem: "dict_keys (dict_delitem d k) = removeAll k (dict_keys d)"
  by (simp add: dict_keys_def dict_delitem_def delete_keys)

lemma set_dict_setitem: "set (dict_setitem d k v) \<subseteq> insert (k, v) (set d)"
  unfolding dict_setitem_def by (induction d) auto

lemma set_dict_delitem: "set (dict_delitem d k) \<subseteq> set d"
  by (auto simp: dict_delitem_def AList.delete_eq)

lemma dict_get_in_set: "dict_get d k = Some v \<Longrightarrow> (k, v) \<in> set d"
  by (simp add: dict_get_def map_of_SomeD)

lemma dict_get_distinct: "distinct (dict_keys d) \<Longrightarrow> (k, v) \<in> set d \<Longrightarrow> dict_get d k = Some v"
  by (simp add: dict_get_def dict_keys_def)

lemma sorted_wrt_removeAll: "sorted_wrt (<) (xs :: int list) \<Longrightarrow> sorted_wrt (<) (removeAll k xs)"
  by (induction xs) auto

lemma run_invariant:
  assumes "\<And>r s. P s \<Longrightarrow> P (snd (h r s))" and "P st"
  shows "P (run h rs st)"
  using assms(2) by (induction rs arbitrary: st) (auto intro: assms(1))

subsection \<open>What each handler does to the store\<close>

lemma main_create_item_eq:
  "main_create_item item st =
     (Inr (main_ItemCreate_model_dump item @ [(''id'', PyInt (next_id st)), (''is_active'', PyBool True)]),
      st\<lparr>db := dict_setitem (db st) (next_id st)
              (main_ItemCreate_model_dump item @ [(''id'', PyInt (next_id st)), (''is_active'', PyBool True)]),
         next_id := next_id st + 1\<rparr>)"
  by (simp add: main_create_item_def main_ItemCreate_model_dump_def dict_setitem_def Let_def)

lemma main_new_item_id:
  "item_id_of (main_ItemCreate_model_dump item @ [(''id'', PyInt n), (''is_active'', PyBool True)]) = Some n"
  by (simp add: item_id_of_def dict_get_def main_ItemCreate_model_dump_def)

lemma main_new_item_active:
  "dict_get (main_ItemCreate_model_dump item @ [(''id'', PyInt n), (''is_active'', PyBool True)]) ''is_active''
     = Some (PyBool True)"
  by (simp add: dict_get_def main_ItemCreate_model_dump_def)

lemma backend_create_item_eq:
  "backend_create_item item st =
     (if float_lt (backend_ItemCreate.price item) (Finite 0) then (Inl backend_price_error, st)
      else (Inr ((''id'', PyInt (next_id st)) # backend_ItemCreate_model_dump item),
            st\<lparr>db := dict_setitem (db st) (next_id st)
                    ((''id'', PyInt (next_id st)) # backend_ItemCreate_model_dump item),
               next_id := next_id st + 1\<rparr>))"
  by (simp add: backend_create_item_def backend_validate_item_data_def backend_ItemResponse_def Let_def)

lemma backend_new_item_id: "item_id_of ((''id'', PyInt n) # item_dict) = Some n"
  by (simp add: item_id_of_def dict_get_def)

lemma main_apply_updates_other:
  "k \<notin> set (dict_keys update_data) \<Longrightarrow>
   dict_get (main_apply_updates update_data existing_item) k = dict_get existing_item k"
  by (induction update_data existing_item rule: main_apply_updates.induct)
     (auto simp: dict_keys_def dict_get_setitem)

lemma main_apply_updates_provided:
  "distinct (dict_keys update_data) \<Longrightarrow> dict_get update_data k = Some v \<Longrightarrow>
   dict_get (main_apply_updates update_data existing_item) k
     = (if v \<noteq> PyNone then Some v else dict_get existing_item k)"
proof (induction update_data existing_item rule: main_apply_updates.induct)
  case (1 existing_item)
  then show ?case by (simp add: dict_get_def)
next
  case (2 key val update_data existing_item)
  show ?case
  proof (cases "k = key")
    case True
    with 2 have "v = val" and "k \<notin> set (dict_keys update_data)"
      by (auto simp: dict_get_def dict_keys_def)
    then show ?thesis
      using True by (simp add: main_apply_updates_other dict_get_setitem)
  next
    case False
    with 2 have "distinct (dict_keys update_data)" and "dict_get update_data k = Some v"
      by (auto simp: dict_get_def dict_keys_def)
    then have "dict_get (main_apply_updates update_data
                 (if val \<noteq> PyNone then dict_setitem existing_item key val else existing_item)) k
               = (if v \<noteq> PyNone then Some v
                  else dict_get (if val \<noteq> PyNone then dict_setitem existing_item key val
                                 else existing_item) k)"
      by (rule "2.IH")
    with False show ?thesis by (simp add: dict_get_setitem)
  qed
qed

lemma backend_copy_update_other:
  "k \<notin> set (dict_keys update_data) \<Longrightarrow>
   dict_get (backend_copy_update existing_item update_data) k = dict_get existing_item k"
  by (induction existing_item update_data rule: backend_copy_update.induct)
     (auto simp: dict_keys_def dict_get_setitem)

lemma backend_copy_update_provided:
  "distinct (dict_keys update_data) \<Longrightarrow> dict_get update_data k = Some v \<Longrightarrow>
   dict_get (backend_copy_update existing_item update_data) k = Some v"
proof (induction existing_item update_data rule: backend_copy_update.induct)
  case (1 existing_item)
  then show ?case by (simp add: dict_get_def)
next
  case (2 existing_item key val update_data)
  show ?case
  proof (cases "k = key")
    case True
    with 2 have "v = val" and "k \<notin> set (dict_keys update_data)"
      by (auto simp: dict_get_def dict_keys_def)
    then show ?thesis
      using True by (simp add: backend_copy_update_other dict_get_setitem)
  next
    case False
    with 2 show ?thesis by (simp add: dict_get_def dict_keys_def)
  qed
qed

lemma main_dump_keys:
  "set (dict_keys (main_ItemUpdate_model_dump_exclude_unset u)) \<subseteq> {''name'', ''description'', ''price''}"
  by (cases "main_ItemUpdate.name u"; cases "main_ItemUpdate.description u";
      cases "main_ItemUpdate.price u")
     (simp_all add: main_ItemUpdate_model_dump_exclude_unset_def dict_keys_def)

lemma main_dump_distinct: "distinct (dict_keys (main_ItemUpdate_model_dump_exclude_unset u))"
  by (cases "main_ItemUpdate.name u"; cases "main_ItemUpdate.description u";
      cases "main_ItemUpdate.price u")
     (simp_all add: main_ItemUpdate_model_dump_exclude_unset_def dict_keys_def)

lemma backend_dump_keys:
  "set (dict_keys (backend_ItemUpdate_model_dump_exclude_unset u))
     \<subseteq> {''name'', ''description'', ''price'', ''is_offer''}"
  by (cases "backend_ItemUpdate.name u"; cases "backend_ItemUpdate.description u";
      cases "backend_ItemUpdate.price u"; cases "backend_ItemUpdate.is_offer u")
     (simp_all add: backend_ItemUpdate_model_dump_exclude_unset_def dict_keys_def)

lemma backend_dump_distinct: "distinct (dict_keys (backend_ItemUpdate_model_dump_exclude_unset u))"
  by (cases "backend_ItemUpdate.name u"; cases "backend_ItemUpdate.description u";
      cases "backend_ItemUpdate.price u"; cases "backend_ItemUpdate.is_offer u")
     (simp_all add: backend_ItemUpdate_model_dump_exclude_unset_def dict_keys_def)

lemma main_update_item_eq:
  "dict_get (db st) item_id = Some old \<Longrightarrow>
   main_update_item item_id u st =
     (Inr (main_apply_updates (main_ItemUpdate_model_dump_exclude_unset u) old),
      st\<lparr>db := dict_setitem (db st) item_id
              (main_apply_updates (main_ItemUpdate_model_dump_exclude_unset u) old)\<rparr>)"
  by (simp add: main_update_item_def dict_contains_iff Let_def)

lemma backend_update_item_eq:
  "dict_get (db st) item_id = Some old \<Longrightarrow>
   backend_update_item item_id u st =
     (if backend_price_negative (backend_ItemUpdate_model_dump_exclude_unset u)
      then (Inl backend_price_error, st)
      else (Inr (backend_copy_update old (backend_ItemUpdate_model_dump_exclude_unset u)),
            st\<lparr>db := dict_setitem (db st) item_id
                    (backend_copy_update old (backend_ItemUpdate_model_dump_exclude_unset u))\<rparr>))"
  by (simp add: backend_update_item_def dict_contains_iff Let_def)

subsection \<open>The routes of the strict variant\<close>

lemma snd_main_response: "snd (main_response r) = snd r"
  by (simp add: main_response_def split: sum.splits)

lemma snd_main_list_response: "snd (main_list_response r) = snd r"
  by (simp add: main_list_response_def split: sum.splits)

lemma main_response_valid: "main_ItemInDB_valid item \<Longrightarrow> main_response (Inr item, st) = (Inr item, st)"
  by (simp add: main_response_def)

lemma main_response_invalid:
  "\<not> main_ItemInDB_valid item \<Longrightarrow> main_response (Inr item, st) = (Inl ResponseValidationError, st)"
  by (simp add: main_response_def)

lemma main_response_error: "main_response (Inl e, st) = (Inl e, st)"
  by (simp add: main_response_def)

lemma main_new_item_valid:
  "main_ItemCreate_valid body \<Longrightarrow>
   main_ItemInDB_valid
     (main_ItemCreate_model_dump body @ [(''id'', PyInt n), (''is_active'', PyBool True)])"
  by (cases "main_ItemCreate.description body")
     (simp_all add: main_ItemInDB_valid_def main_ItemCreate_valid_def main_ItemCreate_model_dump_def
        dict_get_def py_opt_def)

lemma main_POST_items_valid:
  "main_ItemCreate_valid body \<Longrightarrow> main_POST_items body st = main_create_item body st"
  by (simp add: main_POST_items_def main_create_item_eq main_response_valid main_new_item_valid)

lemma main_POST_items_invalid:
  "\<not> main_ItemCreate_valid body \<Longrightarrow>
   main_POST_items body st = (Inl (request_validation_error (main_ItemCreate_rejected body)), st)"
  by (simp add: main_POST_items_def)

lemma main_PUT_item_store:
  "snd (main_PUT_item item_id u st)
     = (if main_ItemUpdate_valid u then snd (main_update_item item_id u st) else st)"
  by (simp add: main_PUT_item_def snd_main_response)


lemma main_GET_item_store: "snd (main_GET_item item_id st) = st"
  by (simp add: main_GET_item_def snd_main_response main_read_item_def split: option.splits)

lemma main_GET_items_store: "snd (main_GET_items st) = st"
  by (simp add: main_GET_items_def snd_main_list_response main_read_all_items_def)

subsection \<open>The invariant of the store\<close>

lemma store_inv_distinct: "store_inv st \<Longrightarrow> distinct (dict_keys (db st))"
  using strict_sorted_iff[of "dict_keys (db st)"] by (simp add: store_inv_def)

lemma store_inv_initial: "store_inv initial_store"
  by (simp add: store_inv_def initial_store_def dict_keys_def)

lemma store_inv_create:
  assumes "store_inv st" and "item_id_of item = Some (next_id st)"
  shows "store_inv (st\<lparr>db := dict_setitem (db st) (next_id st) item, next_id := next_id st + 1\<rparr>)"
proof -
  have fresh: "\<not> dict_contains (db st) (next_id st)"
    using assms(1) by (auto simp: store_inv_def dict_contains_def dict_keys_def)
  have "sorted_wrt (<) (dict_keys (db st) @ [next_id st])"
    using assms(1) by (auto simp: store_inv_def sorted_wrt_append)
  moreover have "\<forall>k \<in> set (dict_keys (db st) @ [next_id st]). k < next_id st + 1"
    using assms(1) by (auto simp: store_inv_def)
  moreover have "\<forall>(k, v) \<in> set (dict_setitem (db st) (next_id st) item). item_id_of v = Some k"
    using assms set_dict_setitem[of "db st" "next_id st" item] by (auto simp: store_inv_def)
  ultimately show ?thesis
    using fresh by (simp add: store_inv_def dict_keys_setitem)
qed

lemma store_inv_update:
  assumes "store_inv st" and "dict_contains (db st) k" and "item_id_of item = Some k"
  shows "store_inv (st\<lparr>db := dict_setitem (db st) k item\<rparr>)"
proof -
  have "\<forall>(k', v) \<in> set (dict_setitem (db st) k item). item_id_of v = Some k'"
    using assms set_dict_setitem[of "db st" k item] by (auto simp: store_inv_def)
  then show ?thesis
    using assms by (simp add: store_inv_def dict_keys_setitem)
qed

lemma store_inv_delete:
  assumes "store_inv st"
  shows "store_inv (st\<lparr>db := dict_delitem (db st) k\<rparr>)"
proof -
  have "\<forall>(k', v) \<in> set (dict_delitem (db st) k). item_id_of v = Some k'"
    using assms set_dict_delitem[of "db st" k] by (auto simp: store_inv_def)
  then show ?thesis
    using assms by (simp add: store_inv_def dict_keys_delitem sorted_wrt_removeAll)
qed

lemma store_inv_stored_id:
  "store_inv st \<Longrightarrow> dict_get (db st) k = Some item \<Longrightarrow> item_id_of item = Some k"
  by (auto simp: store_inv_def dest: dict_get_in_set)

lemma main_id_kept:
  "item_id_of (main_apply_updates (main_ItemUpdate_model_dump_exclude_unset u) old) = item_id_of old"
proof -
  have "''id'' \<notin> set (dict_keys (main_ItemUpdate_model_dump_exclude_unset u))"
    using main_dump_keys[of u] by auto
  then show ?thesis by (simp add: item_id_of_def main_apply_updates_other)
qed

lemma backend_id_kept:
  "item_id_of (backend_copy_update old (backend_ItemUpdate_model_dump_exclude_unset u)) = item_id_of old"
proof -
  have "''id'' \<notin> set (dict_keys (backend_ItemUpdate_model_dump_exclude_unset u))"
    using backend_dump_keys[of u] by auto
  then show ?thesis by (simp add: item_id_of_def backend_copy_update_other)
qed

lemma main_update_item_inv:
  assumes "store_inv st"
  shows "store_inv (snd (main_update_item item_id u st))"
proof (cases "dict_get (db st) item_id")
  case None
  then show ?thesis using assms by (simp add: main_update_item_def dict_contains_iff)
next
  case (Some old)
  then show ?thesis
    using assms
    by (simp add: main_update_item_eq store_inv_update dict_contains_iff main_id_kept
                  store_inv_stored_id)
qed

lemma backend_update_item_inv:
  assumes "store_inv st"
  shows "store_inv (snd (backend_update_item item_id u st))"
proof (cases "dict_get (db st) item_id")
  case None
  then show ?thesis using assms by (simp add: backend_update_item_def dict_contains_iff)
next
  case (Some old)
  then show ?thesis
    using assms
    by (simp add: backend_update_item_eq store_inv_update dict_contains_iff backend_id_kept
                  store_inv_stored_id)
qed

lemma main_handle_inv: "store_inv st \<Longrightarrow> store_inv (snd (main_handle r st))"
proof (cases r)
  case (Create body)
  assume "store_inv st"
  then show ?thesis
    using Create
    by (cases "main_ItemCreate_valid body")
       (simp_all add: respond_def main_POST_items_valid main_POST_items_invalid main_create_item_eq
          store_inv_create main_new_item_id)
next
  case ListAll
  assume "store_inv st"
  then show ?thesis using ListAll by (simp add: respond_def main_GET_items_store)
next
  case (Get item_id)
  assume "store_inv st"
  then show ?thesis
    using Get by (simp add: respond_def main_GET_item_store)
next
  case (Update item_id body)
  assume "store_inv st"
  then show ?thesis
    using Update by (simp add: respond_def main_PUT_item_store main_update_item_inv)
next
  case (Delete item_id)
  assume "store_inv st"
  then show ?thesis
    using Delete
    by (simp add: respond_def main_DELETE_item_def main_delete_item_def store_inv_delete)
qed

lemma backend_handle_inv: "store_inv st \<Longrightarrow> store_inv (snd (backend_handle r st))"
proof (cases r)
  case (Create body)
  assume "store_inv st"
  then show ?thesis
    using Create
    by (simp add: respond_def backend_create_item_eq store_inv_create backend_new_item_id)
next
  case ListAll
  assume "store_inv st"
  then show ?thesis using ListAll by (simp add: respond_def backend_read_items_def)
next
  case (Get item_id)
  assume "store_inv st"
  then show ?thesis
    using Get by (simp add: respond_def backend_read_item_def split: option.splits)
next
  case (Update item_id body)
  assume "store_inv st"
  then show ?thesis
    using Update by (simp add: respond_def backend_update_item_inv)
next
  case (Delete item_id)
  assume "store_inv st"
  then show ?thesis
    using Delete by (simp add: respond_def backend_delete_item_def store_inv_delete)
qed

lemma main_run_inv: "store_inv (run main_handle rs initial_store)"
  by (rule run_invariant[where P = store_inv]) (simp_all add: main_handle_inv store_inv_initial)

lemma backend_run_inv: "store_inv (run backend_handle rs initial_store)"
  by (rule run_invariant[where P = store_inv]) (simp_all add: backend_handle_inv store_inv_initial)

subsection \<open>The counter\<close>









lemma main_one_widget:
  "run main_handle [Create main_widget] initial_store = \<lparr>db = [(1, main_widget_item)], next_id = 2\<rparr>"
  by (simp add: main_widget_def main_widget_item_def initial_store_def respond_def
        main_POST_items_valid main_POST_items_invalid main_create_item_eq main_ItemCreate_valid_def float_gt_def
        main_ItemCreate_model_dump_def dict_setitem_def py_opt_def)

lemma backend_one_widget:
  "run backend_handle [Create backend_widget] initial_store
     = \<lparr>db = [(1, backend_widget_item)], next_id = 2\<rparr>"
  by (simp add: backend_widget_def backend_widget_item_def initial_store_def respond_def
        backend_create_item_eq backend_ItemCreate_model_dump_def dict_setitem_def py_opt_def)

subsection \<open>Lookups in the dumped update\<close>

lemma main_dump_price:
  "dict_get (main_ItemUpdate_model_dump_exclude_unset u) ''price'' =
     (case main_ItemUpdate.price u of Unset \<Rightarrow> None | Provided v \<Rightarrow> Some (py_opt PyFloat v))"
  by (cases "main_ItemUpdate.name u"; cases "main_ItemUpdate.description u";
      cases "main_ItemUpdate.price u")
     (simp_all add: main_ItemUpdate_model_dump_exclude_unset_def dict_get_def)

lemma backend_dump_price:
  "dict_get (backend_ItemUpdate_model_dump_exclude_unset u) ''price'' =
     (case backend_ItemUpdate.price u of Unset \<Rightarrow> None | Provided v \<Rightarrow> Some (py_opt PyFloat v))"
  by (cases "backend_ItemUpdate.name u"; cases "backend_ItemUpdate.description u";
      cases "backend_ItemUpdate.price u"; cases "backend_ItemUpdate.is_offer u")
     (simp_all add: backend_ItemUpdate_model_dump_exclude_unset_def dict_get_def)



lemma main_apply_updates_lookup:
  "distinct (dict_keys update_data) \<Longrightarrow>
   dict_get (main_apply_updates update_data existing_item) k =
     (case dict_get update_data k of
        None \<Rightarrow> dict_get existing_item k
      | Some v \<Rightarrow> if v \<noteq> PyNone then Some v else dict_get existing_item k)"
proof (cases "dict_get update_data k")
  case None
  then have "k \<notin> set (dict_keys update_data)"
    by (simp add: dict_get_def dict_keys_def map_of_eq_None_iff)
  then show ?thesis using None by (simp add: main_apply_updates_other)
next
  case (Some v)
  assume "distinct (dict_keys update_data)"
  then show ?thesis using Some by (simp add: main_apply_updates_provided)
qed

lemma backend_copy_update_lookup:
  "distinct (dict_keys update_data) \<Longrightarrow>
   dict_get (backend_copy_update existing_item update_data) k =
     (case dict_get update_data k of None \<Rightarrow> dict_get existing_item k | Some v \<Rightarrow> Some v)"
proof (cases "dict_get update_data k")
  case None
  then have "k \<notin> set (dict_keys update_data)"
    by (simp add: dict_get_def dict_keys_def map_of_eq_None_iff)
  then show ?thesis using None by (simp add: backend_copy_update_other)
next
  case (Some v)
  assume "distinct (dict_keys update_data)"
  then show ?thesis using Some by (simp add: backend_copy_update_provided)
qed

subsection \<open>What a reachable store lists\<close>

lemma dict_setitem_fresh: "\<not> dict_contains d k \<Longrightarrow> dict_setitem d k v = d @ [(k, v)]"
  unfolding dict_contains_def dict_setitem_def by (induction d) auto

lemma store_inv_ids:
  "store_inv st \<Longrightarrow> map item_id_of (dict_values (db st)) = map Some (dict_keys (db st))"
  by (auto simp: store_inv_def dict_values_def dict_keys_def)

lemma store_inv_fresh: "store_inv st \<Longrightarrow> \<not> dict_contains (db st) (next_id st)"
  by (auto simp: store_inv_def dict_contains_def dict_keys_def)

lemma store_inv_lookup:
  assumes "store_inv st"
  shows "dict_get (db st) i = Some r \<longleftrightarrow> r \<in> set (dict_values (db st)) \<and> item_id_of r = Some i"
proof
  assume "dict_get (db st) i = Some r"
  then have "(i, r) \<in> set (db st)" by (rule dict_get_in_set)
  then show "r \<in> set (dict_values (db st)) \<and> item_id_of r = Some i"
    using assms by (force simp: store_inv_def dict_values_def)
next
  assume "r \<in> set (dict_values (db st)) \<and> item_id_of r = Some i"
  then obtain k where "(k, r) \<in> set (db st)" and "item_id_of r = Some i"
    by (auto simp: dict_values_def)
  then have "(i, r) \<in> set (db st)"
    using assms by (auto simp: store_inv_def)
  then show "dict_get (db st) i = Some r"
    using store_inv_distinct[OF assms] by (simp add: dict_get_distinct)
qed

lemma main_read_item_Inr:
  "fst (main_read_item i st) = Inr r \<longleftrightarrow> dict_get (db st) i = Some r"
  by (auto simp: main_read_item_def dict_contains_iff split: option.splits)

lemma backend_read_item_Inr:
  "fst (backend_read_item i st) = Inr r \<longleftrightarrow> dict_get (db st) i = Some r"
  by (auto simp: backend_read_item_def dict_contains_iff split: option.splits)

lemma main_listing:
  assumes "store_inv st"
  shows "main_read_all_items st = (Inr (dict_values (db st)), st)
       \<and> map item_id_of (dict_values (db st)) = map Some (dict_keys (db st))
       \<and> sorted_wrt (<) (dict_keys (db st))
       \<and> (\<forall>i r. fst (main_read_item i st) = Inr r
              \<longleftrightarrow> r \<in> set (dict_values (db st)) \<and> item_id_of r = Some i)
       \<and> (\<forall>body. main_ItemCreate_valid body \<longrightarrow>
             (\<exists>r. fst (main_POST_items body st) = Inr r
                \<and> dict_values (db (snd (main_POST_items body st))) = dict_values (db st) @ [r]))"
  using assms store_inv_ids[OF assms] store_inv_lookup[OF assms] store_inv_fresh[OF assms]
  by (simp add: main_read_all_items_def main_read_item_Inr main_POST_items_valid main_POST_items_invalid main_create_item_eq
        dict_setitem_fresh dict_values_def)
     (simp add: store_inv_def)

lemma backend_listing:
  assumes "store_inv st"
  shows "backend_read_items st = (Inr (dict_values (db st)), st)
       \<and> map item_id_of (dict_values (db st)) = map Some (dict_keys (db st))
       \<and> sorted_wrt (<) (dict_keys (db st))
       \<and> (\<forall>i r. fst (backend_read_item i st) = Inr r
              \<longleftrightarrow> r \<in> set (dict_values (db st)) \<and> item_id_of r = Some i)
       \<and> (\<forall>body. \<not> float_lt (backend_ItemCreate.price body) (Finite 0) \<longrightarrow>
             (\<exists>r. fst (backend_create_item body st) = Inr r
                \<and> dict_values (db (snd (backend_create_item body st))) = dict_values (db st) @ [r]))"
  using assms store_inv_ids[OF assms] store_inv_lookup[OF assms] store_inv_fresh[OF assms]
  by (simp add: backend_read_items_def backend_read_item_Inr backend_create_item_eq
        dict_setitem_fresh dict_values_def)
     (simp add: store_inv_def)

subsection \<open>The active flag\<close>

lemma all_active_initial: "all_active initial_store"
  by (simp add: all_active_def initial_store_def)

lemma main_active_kept:
  "dict_get (main_apply_updates (main_ItemUpdate_model_dump_exclude_unset u) old) ''is_active''
     = dict_get old ''is_active''"
proof -
  have "''is_active'' \<notin> set (dict_keys (main_ItemUpdate_model_dump_exclude_unset u))"
    using main_dump_keys[of u] by auto
  then show ?thesis by (rule main_apply_updates_other)
qed

lemma all_active_setitem:
  assumes "all_active st" and "dict_get item ''is_active'' = Some (PyBool True)"
  shows "all_active (st\<lparr>db := dict_setitem (db st) k item, next_id := n\<rparr>)"
  using assms set_dict_setitem[of "db st" k item] by (auto simp: all_active_def)

lemma all_active_delitem:
  assumes "all_active st"
  shows "all_active (st\<lparr>db := dict_delitem (db st) k\<rparr>)"
  using assms set_dict_delitem[of "db st" k] by (auto simp: all_active_def)

lemma all_active_lookup:
  "all_active st \<Longrightarrow> dict_get (db st) k = Some item \<Longrightarrow> dict_get item ''is_active'' = Some (PyBool True)"
  by (auto simp: all_active_def dest: dict_get_in_set)

lemma main_update_item_active:
  assumes "all_active st"
  shows "all_active (snd (main_update_item item_id u st))"
proof (cases "dict_get (db st) item_id")
  case None
  then show ?thesis using assms by (simp add: main_update_item_def dict_contains_iff)
next
  case (Some old)
  have "all_active (st\<lparr>db := dict_setitem (db st) item_id
            (main_apply_updates (main_ItemUpdate_model_dump_exclude_unset u) old),
          next_id := next_id st\<rparr>)"
    using assms all_active_lookup[OF assms Some]
    by (intro all_active_setitem) (simp_all add: main_active_kept)
  then show ?thesis by (simp add: main_update_item_eq[OF Some])
qed

lemma main_handle_active: "all_active st \<Longrightarrow> all_active (snd (main_handle r st))"
proof (cases r)
  case (Create body)
  assume "all_active st"
  then have "all_active (st\<lparr>db := dict_setitem (db st) (next_id st)
            (main_ItemCreate_model_dump body @ [(''id'', PyInt (next_id st)), (''is_active'', PyBool True)]),
          next_id := next_id st + 1\<rparr>)"
    by (intro all_active_setitem) (simp_all add: main_new_item_active)
  moreover assume "all_active st"
  ultimately show ?thesis
    using Create
    by (cases "main_ItemCreate_valid body")
       (simp_all add: respond_def main_POST_items_valid main_POST_items_invalid main_create_item_eq)
next
  case ListAll
  assume "all_active st"
  then show ?thesis using ListAll by (simp add: respond_def main_GET_items_store)
next
  case (Get item_id)
  assume "all_active st"
  then show ?thesis
    using Get by (simp add: respond_def main_GET_item_store)
next
  case (Update item_id body)
  assume "all_active st"
  then show ?thesis
    using Update by (simp add: respond_def main_PUT_item_store main_update_item_active)
next
  case (Delete item_id)
  assume "all_active st"
  then show ?thesis
    using Delete
    by (simp add: respond_def main_DELETE_item_def main_delete_item_def all_active_delitem)
qed

lemma main_run_active: "all_active (run main_handle rs initial_store)"
  by (rule run_invariant[where P = all_active]) (simp_all add: main_handle_active all_active_initial)

subsection \<open>Identifiers are not handed out again\<close>





subsection \<open>Replies\<close>















text \<open>
  What the List handlers return after any sequence of requests from the initial store:
  exactly the records that the Get handlers find, with strictly increasing ids, a new
  record appended at the end.
\<close>

lemma list_returns_stored_items_in_order:
  "(let st = run main_handle rs initial_store; items = dict_values (db st) in
      main_read_all_items st = (Inr items, st)
      \<and> map item_id_of items = map Some (dict_keys (db st))
      \<and> sorted_wrt (<) (dict_keys (db st))
      \<and> (\<forall>i r. fst (main_read_item i st) = Inr r \<longleftrightarrow> r \<in> set items \<and> item_id_of r = Some i)
      \<and> (\<forall>body. main_ItemCreate_valid body \<longrightarrow>
            (\<exists>r. fst (main_POST_items body st) = Inr r
               \<and> dict_values (db (snd (main_POST_items body st))) = items @ [r])))
   \<and> (let st = run backend_handle rs' initial_store; items = dict_values (db st) in
      backend_read_items st = (Inr items, st)
      \<and> map item_id_of items = map Some (dict_keys (db st))
      \<and> sorted_wrt (<) (dict_keys (db st))
      \<and> (\<forall>i r. fst (backend_read_item i st) = Inr r \<longleftrightarrow> r \<in> set items \<and> item_id_of r = Some i)
      \<and> (\<forall>body. \<not> float_lt (backend_ItemCreate.price body) (Finite 0) \<longrightarrow>
            (\<exists>r. fst (backend_create_item body st) = Inr r
               \<and> dict_values (db (snd (backend_create_item body st))) = items @ [r])))"
  unfolding Let_def
  using main_listing[OF main_run_inv, of rs] backend_listing[OF backend_run_inv, of rs']
  by (rule conjI)

section \<open>Claim C1: identifiers\<close>



section \<open>Claim C2: partial update\<close>

text \<open>
  Claim C2, as amended. An update of an existing id, in either variant, leaves every field
  untouched that the request omits, and with it the keys no request can name (\<^verbatim>\<open>id\<close>,
  \<^verbatim>\<open>is_active\<close>). In the strict variant a field sent as an explicit \<^verbatim>\<open>null\<close> is left
  untouched as well, so a null price does not overwrite the stored price, and a field sent
  with a value takes that value. What the lenient variant does with an explicit \<^verbatim>\<open>null\<close>
  is not part of the statement.
\<close>

theorem update_changes_only_provided_fields:
  assumes "dict_get (db st) item_id = Some old"
  shows "(\<exists>new. main_update_item item_id u st = (Inr new, st\<lparr>db := dict_setitem (db st) item_id new\<rparr>)
            \<and> (\<forall>key. dict_get new key =
                  (case dict_get (main_ItemUpdate_model_dump_exclude_unset u) key of
                     None \<Rightarrow> dict_get old key
                   | Some v \<Rightarrow> if v \<noteq> PyNone then Some v else dict_get old key))
            \<and> (case main_ItemUpdate.price u of
                  Provided (Some p) \<Rightarrow> dict_get new ''price'' = Some (PyFloat p)
                | _ \<Rightarrow> dict_get new ''price'' = dict_get old ''price''))
       \<and> (if backend_price_negative (backend_ItemUpdate_model_dump_exclude_unset bu)
          then backend_update_item item_id bu st = (Inl backend_price_error, st)
          else \<exists>new. backend_update_item item_id bu st
                        = (Inr new, st\<lparr>db := dict_setitem (db st) item_id new\<rparr>)
                 \<and> (\<forall>key. dict_get (backend_ItemUpdate_model_dump_exclude_unset bu) key = None
                        \<longrightarrow> dict_get new key = dict_get old key)
                 \<and> (backend_ItemUpdate.price bu = Unset
                        \<longrightarrow> dict_get new ''price'' = dict_get old ''price''))"
proof -
  let ?new = "main_apply_updates (main_ItemUpdate_model_dump_exclude_unset u) old"
  let ?bnew = "backend_copy_update old (backend_ItemUpdate_model_dump_exclude_unset bu)"
  have keys: "\<forall>key. dict_get ?new key =
                  (case dict_get (main_ItemUpdate_model_dump_exclude_unset u) key of
                     None \<Rightarrow> dict_get old key
                   | Some v \<Rightarrow> if v \<noteq> PyNone then Some v else dict_get old key)"
    by (simp add: main_apply_updates_lookup main_dump_distinct)
  have price: "(case main_ItemUpdate.price u of
                  Provided (Some p) \<Rightarrow> dict_get ?new ''price'' = Some (PyFloat p)
                | _ \<Rightarrow> dict_get ?new ''price'' = dict_get old ''price'')"
    by (simp add: main_apply_updates_lookup main_dump_distinct main_dump_price py_opt_def
             split: field.splits option.splits)
  have strict: "\<exists>new. main_update_item item_id u st = (Inr new, st\<lparr>db := dict_setitem (db st) item_id new\<rparr>)
            \<and> (\<forall>key. dict_get new key =
                  (case dict_get (main_ItemUpdate_model_dump_exclude_unset u) key of
                     None \<Rightarrow> dict_get old key
                   | Some v \<Rightarrow> if v \<noteq> PyNone then Some v else dict_get old key))
            \<and> (case main_ItemUpdate.price u of
                  Provided (Some p) \<Rightarrow> dict_get new ''price'' = Some (PyFloat p)
                | _ \<Rightarrow> dict_get new ''price'' = dict_get old ''price'')"
    using keys price main_update_item_eq[OF assms, of u] by blast
  have bkeys: "\<forall>key. dict_get (backend_ItemUpdate_model_dump_exclude_unset bu) key = None
                        \<longrightarrow> dict_get ?bnew key = dict_get old key"
    by (simp add: backend_copy_update_lookup backend_dump_distinct)
  have bprice: "backend_ItemUpdate.price bu = Unset \<longrightarrow> dict_get ?bnew ''price'' = dict_get old ''price''"
    by (simp add: backend_copy_update_lookup backend_dump_distinct backend_dump_price)
  have lenient: "if backend_price_negative (backend_ItemUpdate_model_dump_exclude_unset bu)
          then backend_update_item item_id bu st = (Inl backend_price_error, st)
          else \<exists>new. backend_update_item item_id bu st
                        = (Inr new, st\<lparr>db := dict_setitem (db st) item_id new\<rparr>)
                 \<and> (\<forall>key. dict_get (backend_ItemUpdate_model_dump_exclude_unset bu) key = None
                        \<longrightarrow> dict_get new key = dict_get old key)
                 \<and> (backend_ItemUpdate.price bu = Unset
                        \<longrightarrow> dict_get new ''price'' = dict_get old ''price'')"
  proof (cases "backend_price_negative (backend_ItemUpdate_model_dump_exclude_unset bu)")
    case True
    then show ?thesis using backend_update_item_eq[OF assms, of bu] by simp
  next
    case False
    then have "backend_update_item item_id bu st
                 = (Inr ?bnew, st\<lparr>db := dict_setitem (db st) item_id ?bnew\<rparr>)"
      using backend_update_item_eq[OF assms, of bu] by simp
    then show ?thesis using False bkeys bprice by auto
  qed
  show ?thesis using strict lenient by (rule conjI)
qed

text \<open>
  The theorem at work: a widget is created and then only its description is sent, with a
  null price in the strict variant.
\<close>

theorem update_changes_only_provided_fields_witness:
  "dict_get (db (run main_handle [Create main_widget] initial_store)) 1 = Some main_widget_item
   \<and> main_update_item 1 main_describe (run main_handle [Create main_widget] initial_store)
       = (Inr [(''name'', PyStr ''Widget''), (''description'', PyStr ''blue''),
               (''price'', PyFloat (Finite 9.99)), (''id'', PyInt 1), (''is_active'', PyBool True)],
          \<lparr>db = [(1, [(''name'', PyStr ''Widget''), (''description'', PyStr ''blue''),
               (''price'', PyFloat (Finite 9.99)), (''id'', PyInt 1), (''is_active'', PyBool True)])],
           next_id = 2\<rparr>)
   \<and> dict_get (db (run backend_handle [Create backend_widget] initial_store)) 1 = Some backend_widget_item
   \<and> backend_update_item 1 backend_describe (run backend_handle [Create backend_widget] initial_store)
       = (Inr [(''id'', PyInt 1), (''name'', PyStr ''Widget''), (''description'', PyStr ''blue''),
               (''price'', PyFloat (Finite 9.99)), (''is_offer'', PyNone)],
          \<lparr>db = [(1, [(''id'', PyInt 1), (''name'', PyStr ''Widget''), (''description'', PyStr ''blue''),
               (''price'', PyFloat (Finite 9.99)), (''is_offer'', PyNone)])],
           next_id = 2\<rparr>)"
proof -
  let ?st = "run main_handle [Create main_widget] initial_store"
  let ?bst = "run backend_handle [Create backend_widget] initial_store"
  have h: "dict_get (db ?st) 1 = Some main_widget_item"
    unfolding main_one_widget by (simp add: dict_get_def)
  have bh: "dict_get (db ?bst) 1 = Some backend_widget_item"
    unfolding backend_one_widget by (simp add: dict_get_def)
  have dump: "main_ItemUpdate_model_dump_exclude_unset main_describe
                = [(''description'', PyStr ''blue''), (''price'', PyNone)]"
    by (simp add: main_ItemUpdate_model_dump_exclude_unset_def main_describe_def py_opt_def)
  have bdump: "backend_ItemUpdate_model_dump_exclude_unset backend_describe
                = [(''description'', PyStr ''blue'')]"
    by (simp add: backend_ItemUpdate_model_dump_exclude_unset_def backend_describe_def py_opt_def)
  obtain new where new: "main_update_item 1 main_describe ?st
        = (Inr new, ?st\<lparr>db := dict_setitem (db ?st) 1 new\<rparr>)"
    using update_changes_only_provided_fields[OF h, of main_describe] by blast
  have "main_update_item 1 main_describe ?st
       = (Inr [(''name'', PyStr ''Widget''), (''description'', PyStr ''blue''),
               (''price'', PyFloat (Finite 9.99)), (''id'', PyInt 1), (''is_active'', PyBool True)],
          \<lparr>db = [(1, [(''name'', PyStr ''Widget''), (''description'', PyStr ''blue''),
               (''price'', PyFloat (Finite 9.99)), (''id'', PyInt 1), (''is_active'', PyBool True)])],
           next_id = 2\<rparr>)"
    using new unfolding main_one_widget
    by (simp add: main_update_item_def dict_contains_def dict_get_def dump
          main_widget_item_def dict_setitem_def Let_def)
  moreover have "backend_update_item 1 backend_describe ?bst
       = (Inr [(''id'', PyInt 1), (''name'', PyStr ''Widget''), (''description'', PyStr ''blue''),
               (''price'', PyFloat (Finite 9.99)), (''is_offer'', PyNone)],
          \<lparr>db = [(1, [(''id'', PyInt 1), (''name'', PyStr ''Widget''), (''description'', PyStr ''blue''),
               (''price'', PyFloat (Finite 9.99)), (''is_offer'', PyNone)])],
           next_id = 2\<rparr>)"
    unfolding backend_one_widget
    by (simp add: backend_update_item_def dict_contains_def dict_get_def bdump
          backend_widget_item_def dict_setitem_def backend_price_negative_def Let_def)
  ultimately show ?thesis using h bh by simp
qed

text \<open>
  Claim C2 as stated fails in the lenient variant: \<^verbatim>\<open>copy(update=update_data)\<close> writes every
  provided key, so a price sent as \<^verbatim>\<open>null\<close> replaces the stored \<^verbatim>\<open>9.99\<close> by \<^verbatim>\<open>None\<close>.
\<close>

theorem update_null_price_counterexample:
  "dict_get (db (run backend_handle [Create backend_widget] initial_store)) 1
     = Some [(''id'', PyInt 1), (''name'', PyStr ''Widget''), (''description'', PyNone),
             (''price'', PyFloat (Finite 9.99)), (''is_offer'', PyNone)]
   \<and> dict_get (db (run backend_handle [Create backend_widget, Update 1 backend_null_price] initial_store)) 1
     = Some [(''id'', PyInt 1), (''name'', PyStr ''Widget''), (''description'', PyNone),
             (''price'', PyNone), (''is_offer'', PyNone)]"
  by (simp add: backend_widget_def initial_store_def respond_def
        backend_create_item_eq backend_ItemCreate_model_dump_def dict_setitem_def py_opt_def
        backend_update_item_def dict_contains_def dict_get_def backend_null_price_def
        backend_ItemUpdate_model_dump_exclude_unset_def backend_price_negative_def Let_def)

section \<open>Claim C3: validation of a creation\<close>




section \<open>Claim C4: validation of an update\<close>




section \<open>Claim C5: unknown identifiers\<close>

text \<open>
  Claim C5, as amended. When the id is not in the store, Get and Delete fail with 404 in
  either variant, and so does Update in the lenient variant for every body and in the
  strict variant for every body that the schema admits. A strict update whose price the
  schema rejects is answered by the request validation before the id is looked up. In
  every case the store is returned exactly as it was, mapping and counter.
\<close>

theorem absent_id_not_found:
  assumes "\<not> dict_contains (db st) item_id"
  shows "main_GET_item item_id st = (Inl (main_not_found item_id), st)
       \<and> main_PUT_item item_id item_update st
           = (if main_ItemUpdate_valid item_update then (Inl (main_not_found item_id), st)
              else (Inl (request_validation_error (main_ItemUpdate_rejected item_update)), st))
       \<and> main_DELETE_item item_id st = (Inl (main_not_found item_id), st)
       \<and> main_read_item item_id st = (Inl (main_not_found item_id), st)
       \<and> main_update_item item_id item_update st = (Inl (main_not_found item_id), st)
       \<and> main_delete_item item_id st = (Inl (main_not_found item_id), st)
       \<and> status_code (main_not_found item_id) = 404
       \<and> backend_read_item item_id st = (Inl backend_not_found, st)
       \<and> backend_update_item item_id backend_update st = (Inl backend_not_found, st)
       \<and> backend_delete_item item_id st = (Inl backend_not_found, st)
       \<and> status_code backend_not_found = 404"
  using assms
  by (simp add: main_GET_item_def main_PUT_item_def main_DELETE_item_def main_response_error
        main_read_item_def main_update_item_def main_delete_item_def main_not_found_def
        backend_read_item_def backend_update_item_def backend_delete_item_def backend_not_found_def)

text \<open>The theorem at the id \<open>7\<close>, in a store that holds one widget.\<close>

theorem absent_id_not_found_witness:
  "\<not> dict_contains (db (run main_handle [Create main_widget] initial_store)) 7
   \<and> main_ItemUpdate_valid main_reprice
   \<and> main_GET_item 7 (run main_handle [Create main_widget] initial_store)
       = (Inl (HTTPException 404 ''Item with ID 7 not found''),
          run main_handle [Create main_widget] initial_store)
   \<and> main_PUT_item 7 main_reprice (run main_handle [Create main_widget] initial_store)
       = (Inl (HTTPException 404 ''Item with ID 7 not found''),
          run main_handle [Create main_widget] initial_store)
   \<and> main_DELETE_item 7 (run main_handle [Create main_widget] initial_store)
       = (Inl (HTTPException 404 ''Item with ID 7 not found''),
          run main_handle [Create main_widget] initial_store)
   \<and> \<not> dict_contains (db (run backend_handle [Create backend_widget] initial_store)) 7
   \<and> backend_read_item 7 (run backend_handle [Create backend_widget] initial_store)
       = (Inl (HTTPException 404 ''Item not found''),
          run backend_handle [Create backend_widget] initial_store)
   \<and> backend_update_item 7 backend_negative_price (run backend_handle [Create backend_widget] initial_store)
       = (Inl (HTTPException 404 ''Item not found''),
          run backend_handle [Create backend_widget] initial_store)
   \<and> backend_delete_item 7 (run backend_handle [Create backend_widget] initial_store)
       = (Inl (HTTPException 404 ''Item not found''),
          run backend_handle [Create backend_widget] initial_store)"
proof -
  let ?st = "run main_handle [Create main_widget] initial_store"
  let ?bst = "run backend_handle [Create backend_widget] initial_store"
  have absent: "\<not> dict_contains (db ?st) 7"
    unfolding main_one_widget by (simp add: dict_contains_def)
  have babsent: "\<not> dict_contains (db ?bst) 7"
    unfolding backend_one_widget by (simp add: dict_contains_def)
  have valid: "main_ItemUpdate_valid main_reprice"
    by (simp add: main_ItemUpdate_valid_def main_reprice_def float_gt_def)
  have msg: "main_not_found 7 = HTTPException 404 ''Item with ID 7 not found''"
    by (simp add: main_not_found_def str_int_def str_nat.simps digit_char_def)
  have strict: "main_GET_item 7 ?st = (Inl (main_not_found 7), ?st)
      \<and> main_PUT_item 7 main_reprice ?st = (Inl (main_not_found 7), ?st)
      \<and> main_DELETE_item 7 ?st = (Inl (main_not_found 7), ?st)"
    using absent_id_not_found[OF absent, of main_reprice] valid by simp
  have lenient: "backend_read_item 7 ?bst = (Inl backend_not_found, ?bst)
      \<and> backend_update_item 7 backend_negative_price ?bst = (Inl backend_not_found, ?bst)
      \<and> backend_delete_item 7 ?bst = (Inl backend_not_found, ?bst)"
    using absent_id_not_found[OF babsent, of _ backend_negative_price] by blast
  show ?thesis
    using absent babsent valid strict lenient
    by (simp add: msg backend_not_found_def)
qed

text \<open>
  Claim C5 as stated fails in the strict variant: an update of the absent id \<open>7\<close> with the
  price \<open>-1\<close> is answered with 422, not 404.
\<close>

theorem absent_id_counterexample:
  "\<not> dict_contains (db (run main_handle [Create main_widget] initial_store)) 7
   \<and> main_PUT_item 7 main_negative_price (run main_handle [Create main_widget] initial_store)
       = (Inl RequestValidationError, run main_handle [Create main_widget] initial_store)
   \<and> status_code RequestValidationError = 422"
  unfolding main_one_widget
  by (simp add: dict_contains_def main_PUT_item_def main_ItemUpdate_valid_def
        main_negative_price_def float_gt_def request_validation_error_def
        main_ItemUpdate_rejected_def json_compliant_def)

section \<open>Claim C6: deletion\<close>

text \<open>
  Claim C6. When the id is in the store, Delete succeeds, and a Get of the same id in the
  store it leaves raises the 404 error, in either variant.
\<close>

theorem deleted_item_not_found:
  assumes "dict_contains (db st) item_id"
  shows "fst (main_delete_item item_id st) = Inr [(''message'', ''Item deleted'')]
       \<and> fst (main_read_item item_id (snd (main_delete_item item_id st))) = Inl (main_not_found item_id)
       \<and> status_code (main_not_found item_id) = 404
       \<and> fst (backend_delete_item item_id st) = Inr ()
       \<and> fst (backend_read_item item_id (snd (backend_delete_item item_id st))) = Inl backend_not_found
       \<and> status_code backend_not_found = 404"
proof -
  have gone: "\<not> dict_contains (dict_delitem (db st) item_id) item_id"
    by (simp add: dict_contains_iff dict_get_delitem)
  show ?thesis
    using assms gone
    by (simp add: main_DELETE_item_def main_delete_item_def main_read_item_def main_not_found_def
          backend_delete_item_def backend_read_item_def backend_not_found_def)
qed

text \<open>The theorem at the widget that was just created.\<close>

theorem deleted_item_not_found_witness:
  "dict_contains (db (run main_handle [Create main_widget] initial_store)) 1
   \<and> fst (main_delete_item 1 (run main_handle [Create main_widget] initial_store))
       = Inr [(''message'', ''Item deleted'')]
   \<and> fst (main_read_item 1 (snd (main_delete_item 1 (run main_handle [Create main_widget] initial_store))))
       = Inl (HTTPException 404 ''Item with ID 1 not found'')
   \<and> dict_contains (db (run backend_handle [Create backend_widget] initial_store)) 1
   \<and> fst (backend_delete_item 1 (run backend_handle [Create backend_widget] initial_store)) = Inr ()
   \<and> fst (backend_read_item 1
            (snd (backend_delete_item 1 (run backend_handle [Create backend_widget] initial_store))))
       = Inl (HTTPException 404 ''Item not found'')"
proof -
  let ?st = "run main_handle [Create main_widget] initial_store"
  let ?bst = "run backend_handle [Create backend_widget] initial_store"
  have present: "dict_contains (db ?st) 1"
    unfolding main_one_widget by (simp add: dict_contains_def)
  have bpresent: "dict_contains (db ?bst) 1"
    unfolding backend_one_widget by (simp add: dict_contains_def)
  have msg: "main_not_found 1 = HTTPException 404 ''Item with ID 1 not found''"
    by (simp add: main_not_found_def str_int_def str_nat.simps digit_char_def)
  have strict: "fst (main_delete_item 1 ?st) = Inr [(''message'', ''Item deleted'')]
      \<and> fst (main_read_item 1 (snd (main_delete_item 1 ?st))) = Inl (main_not_found 1)"
    using deleted_item_not_found[OF present] by blast
  have lenient: "fst (backend_delete_item 1 ?bst) = Inr ()
      \<and> fst (backend_read_item 1 (snd (backend_delete_item 1 ?bst))) = Inl backend_not_found"
    using deleted_item_not_found[OF bpresent] by blast
  show ?thesis
    using present bpresent strict lenient
    by (simp add: msg backend_not_found_def)
qed

section \<open>Claim C7: round trip\<close>



section \<open>Claim C8: listing\<close>

text \<open>
  Claim C8 at the input where the strict variant breaks it. A widget is created and its
  name is updated to the empty string: \<^verbatim>\<open>ItemUpdate.name\<close> has no \<^verbatim>\<open>min_length\<close>, so the
  record is stored with the empty name. List then fails: the stored record violates the
  \<^verbatim>\<open>response_model\<close> of the route, and the answer is the response validation error, status
  500. The lenient variant lists its widget.
\<close>

theorem list_fails_after_empty_name:
  "db (run main_handle [Create main_widget, Update 1 main_unname] initial_store)
     = [(1, [(''name'', PyStr []), (''description'', PyNone),
             (''price'', PyFloat (Finite 9.99)), (''id'', PyInt 1), (''is_active'', PyBool True)])]
   \<and> main_handle ListAll (run main_handle [Create main_widget, Update 1 main_unname] initial_store)
       = (Inl ResponseValidationError,
          run main_handle [Create main_widget, Update 1 main_unname] initial_store)
   \<and> main_GET_items (run main_handle [Create main_widget, Update 1 main_unname] initial_store)
       = (Inl ResponseValidationError,
          run main_handle [Create main_widget, Update 1 main_unname] initial_store)
   \<and> status_code ResponseValidationError = 500
   \<and> backend_read_items (run backend_handle [Create backend_widget] initial_store)
       = (Inr [backend_widget_item], run backend_handle [Create backend_widget] initial_store)"
proof -
  have st: "run main_handle [Create main_widget, Update 1 main_unname] initial_store
     = \<lparr>db = [(1, main_unnamed_item)], next_id = 2\<rparr>"
    by (simp add: main_widget_def initial_store_def respond_def main_POST_items_valid
          main_create_item_eq main_ItemCreate_valid_def float_gt_def main_ItemCreate_model_dump_def
          dict_setitem_def py_opt_def main_PUT_item_store main_ItemUpdate_valid_def main_unname_def
          main_update_item_def dict_contains_def dict_get_def main_unnamed_item_def
          main_ItemUpdate_model_dump_exclude_unset_def Let_def)
  have get: "main_GET_items \<lparr>db = [(1, main_unnamed_item)], next_id = 2\<rparr>
      = (Inl ResponseValidationError, \<lparr>db = [(1, main_unnamed_item)], next_id = 2\<rparr>)"
    by (simp add: main_GET_items_def main_list_response_def main_read_all_items_def dict_values_def
          main_ItemInDB_valid_def dict_get_def main_unnamed_item_def)
  have item: "main_unnamed_item
     = [(''name'', PyStr []), (''description'', PyNone),
        (''price'', PyFloat (Finite 9.99)), (''id'', PyInt 1), (''is_active'', PyBool True)]"
    by (simp add: main_unnamed_item_def)
  have lenient: "backend_read_items (run backend_handle [Create backend_widget] initial_store)
       = (Inr [backend_widget_item], run backend_handle [Create backend_widget] initial_store)"
    unfolding backend_one_widget by (simp add: backend_read_items_def dict_values_def)
  have strict: "db (run main_handle [Create main_widget, Update 1 main_unname] initial_store)
       = [(1, main_unnamed_item)]
     \<and> main_handle ListAll (run main_handle [Create main_widget, Update 1 main_unname] initial_store)
       = (Inl ResponseValidationError,
          run main_handle [Create main_widget, Update 1 main_unname] initial_store)
     \<and> main_GET_items (run main_handle [Create main_widget, Update 1 main_unname] initial_store)
       = (Inl ResponseValidationError,
          run main_handle [Create main_widget, Update 1 main_unname] initial_store)"
    unfolding st by (simp add: get respond_def)
  have code: "status_code ResponseValidationError = 500"
    by simp
  show ?thesis
    using strict[unfolded item] lenient code by blast
qed

section \<open>Claim C9: the counter\<close>



section \<open>Claim C10: the active flag of the strict variant\<close>

text \<open>
  Claim C10. In the strict variant, after any sequence of requests from the initial store
  every stored record has \<^verbatim>\<open>is_active\<close> set to \<^verbatim>\<open>True\<close>: a creation sets it, and an
  update returns a record with the flag it found.
\<close>

theorem stored_items_stay_active:
  "(\<forall>item \<in> set (dict_values (db (run main_handle rs initial_store))).
       dict_get item ''is_active'' = Some (PyBool True))
   \<and> (\<exists>r. fst (main_create_item body st) = Inr r \<and> dict_get r ''is_active'' = Some (PyBool True))
   \<and> (dict_get (db st) item_id = Some old \<longrightarrow>
        (\<exists>new. fst (main_update_item item_id u st) = Inr new
           \<and> dict_get new ''is_active'' = dict_get old ''is_active''))"
proof -
  have "\<forall>item \<in> set (dict_values (db (run main_handle rs initial_store))).
       dict_get item ''is_active'' = Some (PyBool True)"
    using main_run_active[of rs] by (auto simp: all_active_def dict_values_def)
  moreover have "\<exists>r. fst (main_create_item body st) = Inr r
       \<and> dict_get r ''is_active'' = Some (PyBool True)"
    by (simp add: main_create_item_eq main_new_item_active)
  moreover have "dict_get (db st) item_id = Some old \<longrightarrow>
        (\<exists>new. fst (main_update_item item_id u st) = Inr new
           \<and> dict_get new ''is_active'' = dict_get old ''is_active'')"
    by (simp add: main_update_item_eq main_active_kept)
  ultimately show ?thesis by blast
qed

text \<open>The theorem at a widget that is created and then described.\<close>

theorem stored_items_stay_active_witness:
  "dict_values (db (run main_handle [Create main_widget, Update 1 main_describe] initial_store))
     = [[(''name'', PyStr ''Widget''), (''description'', PyStr ''blue''),
         (''price'', PyFloat (Finite 9.99)), (''id'', PyInt 1), (''is_active'', PyBool True)]]
   \<and> dict_get [(''name'', PyStr ''Widget''), (''description'', PyStr ''blue''),
         (''price'', PyFloat (Finite 9.99)), (''id'', PyInt 1), (''is_active'', PyBool True)] ''is_active''
       = Some (PyBool True)
   \<and> dict_get (db (run main_handle [Create main_widget] initial_store)) 1 = Some main_widget_item
   \<and> (\<exists>new. fst (main_update_item 1 main_describe (run main_handle [Create main_widget] initial_store))
                = Inr new
         \<and> dict_get new ''is_active'' = dict_get main_widget_item ''is_active'')"
proof -
  let ?item = "[(''name'', PyStr ''Widget''), (''description'', PyStr ''blue''),
         (''price'', PyFloat (Finite 9.99)), (''id'', PyInt 1), (''is_active'', PyBool True)]"
  let ?rs = "[Create main_widget, Update 1 main_describe]"
  let ?st = "run main_handle [Create main_widget] initial_store"
  have vals: "dict_values (db (run main_handle ?rs initial_store)) = [?item]"
    by (simp add: main_widget_def initial_store_def respond_def main_POST_items_valid main_POST_items_invalid
          main_create_item_eq main_ItemCreate_valid_def float_gt_def main_ItemCreate_model_dump_def
          dict_setitem_def py_opt_def main_PUT_item_def main_response_def main_ItemInDB_valid_def main_ItemUpdate_valid_def main_describe_def
          main_update_item_def dict_contains_def dict_get_def
          main_ItemUpdate_model_dump_exclude_unset_def dict_values_def Let_def)
  have h: "dict_get (db ?st) 1 = Some main_widget_item"
    unfolding main_one_widget by (simp add: dict_get_def)
  note inst = stored_items_stay_active[where rs = ?rs and st = ?st and item_id = 1
      and old = main_widget_item and u = main_describe]
  have mem: "?item \<in> set (dict_values (db (run main_handle ?rs initial_store)))"
    unfolding vals by simp
  have a: "dict_get ?item ''is_active'' = Some (PyBool True)"
    using inst mem by blast
  have b: "\<exists>new. fst (main_update_item 1 main_describe ?st) = Inr new
         \<and> dict_get new ''is_active'' = dict_get main_widget_item ''is_active''"
    using inst h by blast
  show ?thesis using vals a h b by blast
qed

end
